theory Spec2Isabelle
  imports Complex_Main "HOL-Library.Word"
begin

section \<open>The native messaging host of keystroke-sender\<close>

text \<open>
  This theory embeds \<^verbatim>\<open>src/keystroke_sender/host.py\<close>: the frame codec
  (\<^verbatim>\<open>read_message\<close>, \<^verbatim>\<open>send_message\<close>), the injector wrappers
  (\<^verbatim>\<open>type_text\<close>, \<^verbatim>\<open>click_at\<close>), the sliding-window rate limiter
  (\<^verbatim>\<open>_check_rate_limit\<close>) and the body of the loop of \<^verbatim>\<open>main\<close>.

  Conventions.
  \<^item> A Python \<^verbatim>\<open>str\<close> is the list of its code points (\<open>nat list\<close>), so that
    \<open>length\<close> is Python's \<^verbatim>\<open>len\<close> also outside Latin-1.
  \<^item> A Python \<^verbatim>\<open>float\<close> is a real number or one of the three special values;
    the rounding of float arithmetic is not modelled.
  \<^item> \<^verbatim>\<open>bytes\<close> are lists of 8-bit words.
  \<^item> A function with effects takes the process state and returns a result together with
    the new state; the result is \<open>Inl\<close> of the exception raised, or \<open>Inr\<close> of the value.
  \<^item> What the standard library and pynput compute (\<^verbatim>\<open>json.loads\<close>, the
    \<^verbatim>\<open>repr\<close> of a float, \<^verbatim>\<open>str\<close> of a value, \<^verbatim>\<open>int\<close> of a string, the
    byte order of the platform, whether an injector call raises) is a field of the
    record \<open>lib\<close>, about which nothing is assumed. \<^verbatim>\<open>struct.pack\<close>,
    \<^verbatim>\<open>struct.unpack\<close> and the compact, ASCII-only output of \<^verbatim>\<open>json.dumps\<close> are
    written out. The values returned by \<^verbatim>\<open>time.monotonic()\<close> are arguments.
  \<^item> \<^verbatim>\<open>log\<close> writes to stderr only and is left out; the watchdog thread runs
    concurrently and is left out.
\<close>

subsection \<open>Values, exceptions and the environment\<close>

type_synonym byte = "8 word"

type_synonym pystr = "nat list"

text \<open>A string literal of the source, as its code points.\<close>

definition lit :: "string \<Rightarrow> pystr" where
  "lit s = map of_char s"

text \<open>A name between apostrophes, as Python's messages quote type and field names.\<close>

definition quoted :: "pystr \<Rightarrow> pystr" where
  "quoted s = [39] @ s @ [39]"

datatype pyfloat = Finite real | PosInf | NegInf | NaN

text \<open>
  What \<^verbatim>\<open>json.loads\<close> returns and \<^verbatim>\<open>json.dumps\<close> accepts. A \<^verbatim>\<open>dict\<close> is
  the list of its items in insertion order.
\<close>

datatype json =
    JNull
  | JBool bool
  | JInt int
  | JFloat pyfloat
  | JStr pystr
  | JArr "json list"
  | JObj "(pystr \<times> json) list"

text \<open>
  The exception classes the handlers of \<^verbatim>\<open>main\<close> tell apart. \<^verbatim>\<open>SystemExit\<close> is
  what \<^verbatim>\<open>sys.exit\<close> raises; it is not an \<^verbatim>\<open>Exception\<close>, and uncaught it ends the
  process with the given code.
\<close>

datatype exn_class =
    ValueError
  | JSONDecodeError
  | UnicodeDecodeError
  | TypeError
  | AttributeError
  | OverflowError
  | StructError
  | OtherError

datatype exn = SystemExit int | Exn exn_class pystr

text \<open>
  \<^verbatim>\<open>except ValueError\<close> catches the class and its subclasses
  \<^verbatim>\<open>json.JSONDecodeError\<close> and \<^verbatim>\<open>UnicodeDecodeError\<close>.
\<close>

fun is_ValueError :: "exn_class \<Rightarrow> bool" where
  "is_ValueError ValueError = True"
| "is_ValueError JSONDecodeError = True"
| "is_ValueError UnicodeDecodeError = True"
| "is_ValueError _ = False"

text \<open>The calls into pynput and \<^verbatim>\<open>time.sleep\<close>, in the order they are made.\<close>

datatype call =
    KeyboardController
  | KeyboardType nat
  | Sleep json
  | MouseController
  | MousePosition int int
  | MouseClick

record lib =
  little_endian :: bool
  json_loads :: "byte list \<Rightarrow> exn + json"
  float_repr :: "real \<Rightarrow> pystr"
  py_str :: "json \<Rightarrow> pystr"
  int_of_str :: "pystr \<Rightarrow> exn + int"
  raises :: "call list \<Rightarrow> call \<Rightarrow> pystr option"

text \<open>
  The state of the process: the unread bytes of stdin, the bytes written to stdout, the
  calls made so far, the list \<^verbatim>\<open>action_timestamps\<close> and the cell
  \<^verbatim>\<open>last_activity[0]\<close> of \<^verbatim>\<open>main\<close>. The field \<open>activity_updates\<close> is not in
  the source: it counts the assignments to \<^verbatim>\<open>last_activity[0]\<close>.
\<close>

record state =
  stdin :: "byte list"
  stdout :: "byte list"
  calls :: "call list"
  action_timestamps :: "real list"
  last_activity :: real
  activity_updates :: nat

type_synonym 'a action = "state \<Rightarrow> (exn + 'a) \<times> state"

definition ret :: "'a \<Rightarrow> 'a action" where
  "ret a s = (Inr a, s)"

definition lift :: "exn + 'a \<Rightarrow> 'a action" where
  "lift r s = (r, s)"

text \<open>Sequencing: an exception of the first part skips the second.\<close>

definition then_do :: "'a action \<Rightarrow> ('a \<Rightarrow> 'b action) \<Rightarrow> 'b action" where
  "then_do m f s = (case m s of (Inl e, s1) \<Rightarrow> (Inl e, s1) | (Inr a, s1) \<Rightarrow> f a s1)"

text \<open>
  One call into pynput or \<^verbatim>\<open>time.sleep\<close>: it is recorded, and raises when the
  environment says so.
\<close>

definition perform :: "lib \<Rightarrow> call \<Rightarrow> unit action" where
  "perform L c s =
     (let s1 = s\<lparr>calls := calls s @ [c]\<rparr> in
      case raises L (calls s) c of
        None \<Rightarrow> (Inr (), s1)
      | Some m \<Rightarrow> (Inl (Exn OtherError m), s1))"

subsection \<open>What the code uses of Python\<close>

fun type_name :: "json \<Rightarrow> pystr" where
  "type_name JNull = lit ''NoneType''"
| "type_name (JBool b) = lit ''bool''"
| "type_name (JInt i) = lit ''int''"
| "type_name (JFloat f) = lit ''float''"
| "type_name (JStr s) = lit ''str''"
| "type_name (JArr vs) = lit ''list''"
| "type_name (JObj kvs) = lit ''dict''"

text \<open>\<^verbatim>\<open>message.get(key, default)\<close>: only a \<^verbatim>\<open>dict\<close> has the method.\<close>

fun dict_get :: "json \<Rightarrow> pystr \<Rightarrow> json \<Rightarrow> exn + json" where
  "dict_get (JObj kvs) key dflt =
     Inr (case map_of kvs key of None \<Rightarrow> dflt | Some v \<Rightarrow> v)"
| "dict_get m key dflt =
     Inl (Exn AttributeError
       (quoted (type_name m) @ lit '' object has no attribute '' @ quoted (lit ''get'')))"

text \<open>
  \<^verbatim>\<open>key in message\<close>. The code evaluates it only after \<^verbatim>\<open>message.get\<close> has
  returned, that is, on a \<^verbatim>\<open>dict\<close>.
\<close>

fun key_in :: "pystr \<Rightarrow> json \<Rightarrow> bool" where
  "key_in key (JObj kvs) = (map_of kvs key \<noteq> None)"
| "key_in key m = False"

text \<open>\<^verbatim>\<open>delay > 0\<close>.\<close>

fun greater_zero :: "json \<Rightarrow> exn + bool" where
  "greater_zero (JInt i) = Inr (i > 0)"
| "greater_zero (JBool b) = Inr b"
| "greater_zero (JFloat (Finite r)) = Inr (r > 0)"
| "greater_zero (JFloat PosInf) = Inr True"
| "greater_zero (JFloat NegInf) = Inr False"
| "greater_zero (JFloat NaN) = Inr False"
| "greater_zero v =
     Inl (Exn TypeError
       (quoted (lit ''>'') @ lit '' not supported between instances of ''
        @ quoted (type_name v) @ lit '' and '' @ quoted (lit ''int'')))"

text \<open>The integer nearest to \<open>r\<close> between \<open>0\<close> and \<open>r\<close>.\<close>

definition trunc_toward_zero :: "real \<Rightarrow> int" where
  "trunc_toward_zero r = (if r \<ge> 0 then \<lfloor>r\<rfloor> else \<lceil>r\<rceil>)"

text \<open>\<^verbatim>\<open>int(x)\<close>.\<close>

fun py_int :: "lib \<Rightarrow> json \<Rightarrow> exn + int" where
  "py_int L (JInt i) = Inr i"
| "py_int L (JBool b) = Inr (if b then 1 else 0)"
| "py_int L (JFloat (Finite r)) = Inr (trunc_toward_zero r)"
| "py_int L (JFloat NaN) =
     Inl (Exn ValueError (lit ''cannot convert float NaN to integer''))"
| "py_int L (JFloat f) =
     Inl (Exn OverflowError (lit ''cannot convert float infinity to integer''))"
| "py_int L (JStr s) = int_of_str L s"
| "py_int L v =
     Inl (Exn TypeError
       (lit ''int() argument must be a string, a bytes-like object or a real number, not ''
        @ quoted (type_name v)))"

text \<open>\<^verbatim>\<open>str\<close> of a natural number and of an integer.\<close>

fun dec_nat :: "nat \<Rightarrow> pystr" where
  "dec_nat n = (if n < 10 then [48 + n] else dec_nat (n div 10) @ [48 + n mod 10])"

definition dec_int :: "int \<Rightarrow> pystr" where
  "dec_int i = (if i < 0 then 45 # dec_nat (nat (- i)) else dec_nat (nat i))"

subsection \<open>\<^verbatim>\<open>struct\<close> and \<^verbatim>\<open>json.dumps\<close>\<close>

text \<open>
  \<^verbatim>\<open>struct.pack("@I", n)\<close> and \<^verbatim>\<open>struct.unpack("@I", b)[0]\<close>: four bytes in the
  byte order of the platform.
\<close>

definition pack_I :: "bool \<Rightarrow> nat \<Rightarrow> exn + byte list" where
  "pack_I le n =
     (if n < 2 ^ 32 then
        (let bs = [of_nat (n mod 256), of_nat (n div 256 mod 256),
                   of_nat (n div 65536 mod 256), of_nat (n div 16777216 mod 256)]
         in Inr (if le then bs else rev bs))
      else Inl (Exn StructError
        (quoted (lit ''I'') @ lit '' format requires 0 <= number <= 4294967295'')))"

definition unpack_I :: "bool \<Rightarrow> byte list \<Rightarrow> nat" where
  "unpack_I le raw =
     foldr (\<lambda>b n. unat b + 256 * n) (if le then raw else rev raw) 0"

text \<open>
  \<^verbatim>\<open>json.dumps(obj, separators=(",", ":"))\<close> with the default
  \<^verbatim>\<open>ensure_ascii=True\<close>: every character outside the printable ASCII range is
  escaped, so the text is ASCII and its UTF-8 encoding has one byte per character.
\<close>

definition hex_digit :: "nat \<Rightarrow> nat" where
  "hex_digit d = (if d < 10 then 48 + d else 87 + d)"

definition u_escape :: "nat \<Rightarrow> pystr" where
  "u_escape n =
     [92, 117, hex_digit (n div 4096 mod 16), hex_digit (n div 256 mod 16),
      hex_digit (n div 16 mod 16), hex_digit (n mod 16)]"

definition escape_char :: "nat \<Rightarrow> pystr" where
  "escape_char c =
     (if c = 34 then [92, 34]
      else if c = 92 then [92, 92]
      else if c = 10 then [92, 110]
      else if c = 13 then [92, 114]
      else if c = 9 then [92, 116]
      else if c = 12 then [92, 102]
      else if c = 8 then [92, 98]
      else if 32 \<le> c \<and> c \<le> 126 then [c]
      else if c < 65536 then u_escape c
      else u_escape (55296 + (c - 65536) div 1024 mod 1024)
           @ u_escape (56320 + (c - 65536) mod 1024))"

definition dumps_str :: "pystr \<Rightarrow> pystr" where
  "dumps_str s = [34] @ concat (map escape_char s) @ [34]"

fun join_commas :: "pystr list \<Rightarrow> pystr" where
  "join_commas [] = []"
| "join_commas [x] = x"
| "join_commas (x # y # ys) = x @ [44] @ join_commas (y # ys)"

fun dumps_text :: "(real \<Rightarrow> pystr) \<Rightarrow> json \<Rightarrow> pystr" where
  "dumps_text fr JNull = lit ''null''"
| "dumps_text fr (JBool b) = (if b then lit ''true'' else lit ''false'')"
| "dumps_text fr (JInt i) = dec_int i"
| "dumps_text fr (JFloat (Finite r)) = fr r"
| "dumps_text fr (JFloat PosInf) = lit ''Infinity''"
| "dumps_text fr (JFloat NegInf) = lit ''-Infinity''"
| "dumps_text fr (JFloat NaN) = lit ''NaN''"
| "dumps_text fr (JStr s) = dumps_str s"
| "dumps_text fr (JArr vs) = [91] @ join_commas (map (dumps_text fr) vs) @ [93]"
| "dumps_text fr (JObj kvs) =
     [123] @ join_commas (map (\<lambda>(k, v). dumps_str k @ [58] @ dumps_text fr v) kvs)
     @ [125]"

definition json_dumps :: "lib \<Rightarrow> json \<Rightarrow> byte list" where
  "json_dumps L obj = map of_nat (dumps_text (float_repr L) obj)"

subsection \<open>Safety limits\<close>

definition MAX_MESSAGE_BYTES :: nat where
  "MAX_MESSAGE_BYTES = 1048576"

definition MAX_TEXT_LENGTH :: nat where
  "MAX_TEXT_LENGTH = 10000"

definition IDLE_TIMEOUT_SECONDS :: real where
  "IDLE_TIMEOUT_SECONDS = 300"

definition RATE_LIMIT_WINDOW :: real where
  "RATE_LIMIT_WINDOW = 1.0"

definition RATE_LIMIT_MAX :: nat where
  "RATE_LIMIT_MAX = 20"

subsection \<open>The rate limiter\<close>

text \<open>
  The loop \<^verbatim>\<open>while timestamps and timestamps[0] <= now - RATE_LIMIT_WINDOW:
  timestamps.pop(0)\<close> of \<^verbatim>\<open>_check_rate_limit\<close>.
\<close>

fun discard_outside :: "real \<Rightarrow> real list \<Rightarrow> real list" where
  "discard_outside now [] = []"
| "discard_outside now (t # timestamps) =
     (if t \<le> now - RATE_LIMIT_WINDOW then discard_outside now timestamps
      else t # timestamps)"

text \<open>
  \<^verbatim>\<open>_check_rate_limit(timestamps)\<close>, with the value \<open>now\<close> that
  \<^verbatim>\<open>time.monotonic()\<close> returned: the answer and the list as the call leaves it.
\<close>

definition check_rate_limit :: "real \<Rightarrow> real list \<Rightarrow> bool \<times> real list" where
  "check_rate_limit now timestamps =
     (let timestamps1 = discard_outside now timestamps in
      if length timestamps1 \<ge> RATE_LIMIT_MAX then (False, timestamps1)
      else (True, timestamps1 @ [now]))"

text \<open>
  The admission check as the specification words it: every timestamp older than
  \<open>now - window\<close> is discarded (one equal to \<open>now - window\<close> is kept), then the
  count is compared with the maximum.
\<close>

definition tryAdmit_spec :: "real \<Rightarrow> real list \<Rightarrow> bool \<times> real list" where
  "tryAdmit_spec now state =
     (let remaining = filter (\<lambda>t. \<not> t < now - 1.0) state in
      if length remaining < 20 then (True, remaining @ [now])
      else (False, remaining))"

subsection \<open>The frame codec\<close>

text \<open>
  \<^verbatim>\<open>sys.stdin.buffer.read(n)\<close>: the next \<open>n\<close> bytes, fewer only when the stream
  ends before.
\<close>

definition stdin_read :: "nat \<Rightarrow> state \<Rightarrow> byte list \<times> state" where
  "stdin_read n s = (take n (stdin s), s\<lparr>stdin := drop n (stdin s)\<rparr>)"

text \<open>
  Lines 51 to 65 of \<^verbatim>\<open>read_message\<close>: the bytes \<^verbatim>\<open>raw_message\<close> of one frame.
\<close>

definition read_frame :: "lib \<Rightarrow> byte list action" where
  "read_frame L s =
     (let (raw_length, s1) = stdin_read 4 s in
      if length raw_length = 0 then (Inl (SystemExit 0), s1)
      else if length raw_length < 4 then (Inl (SystemExit 1), s1)
      else
        let message_length = unpack_I (little_endian L) raw_length in
        if message_length > MAX_MESSAGE_BYTES then
          (Inl (Exn ValueError
             (lit ''Message exceeds '' @ dec_nat MAX_MESSAGE_BYTES @ lit '' byte limit'')), s1)
        else
          let (raw_message, s2) = stdin_read message_length s1 in
          if length raw_message < message_length then (Inl (SystemExit 1), s2)
          else (Inr raw_message, s2))"

text \<open>
  \<^verbatim>\<open>read_message\<close>: line 66 decodes the frame, which may raise.
\<close>

definition read_message :: "lib \<Rightarrow> json action" where
  "read_message L = then_do (read_frame L) (\<lambda>raw_message. lift (json_loads L raw_message))"

definition send_message :: "lib \<Rightarrow> json \<Rightarrow> unit action" where
  "send_message L message_obj s =
     (let encoded = json_dumps L message_obj in
      case pack_I (little_endian L) (length encoded) of
        Inl e \<Rightarrow> (Inl e, s)
      | Inr prefix \<Rightarrow> (Inr (), s\<lparr>stdout := stdout s @ prefix @ encoded\<rparr>))"

subsection \<open>The injector\<close>

text \<open>The float \<^verbatim>\<open>0.05\<close> of the source.\<close>

definition seconds_0_05 :: json where
  "seconds_0_05 = JFloat (Finite 0.05)"

text \<open>The loop \<^verbatim>\<open>for char in text\<close> of \<^verbatim>\<open>type_text\<close>, with its counter.\<close>

fun type_chars :: "lib \<Rightarrow> json \<Rightarrow> pystr \<Rightarrow> nat \<Rightarrow> nat action" where
  "type_chars L delay [] count = ret count"
| "type_chars L delay (char # text) count =
     then_do (perform L (KeyboardType char)) (\<lambda>_.
     then_do (lift (greater_zero delay)) (\<lambda>pause.
     if pause then
       then_do (perform L (Sleep delay)) (\<lambda>_. type_chars L delay text (count + 1))
     else type_chars L delay text (count + 1)))"

definition type_text :: "lib \<Rightarrow> pystr \<Rightarrow> json \<Rightarrow> nat action" where
  "type_text L text delay =
     then_do (perform L KeyboardController) (\<lambda>_. type_chars L delay text 0)"

definition click_at :: "lib \<Rightarrow> int \<Rightarrow> int \<Rightarrow> unit action" where
  "click_at L x y =
     then_do (perform L MouseController) (\<lambda>_.
     then_do (perform L (MousePosition x y)) (\<lambda>_.
     then_do (perform L (Sleep (seconds_0_05))) (\<lambda>_.
     perform L MouseClick)))"

subsection \<open>The loop of \<^verbatim>\<open>main\<close>\<close>

definition error_response :: "pystr \<Rightarrow> json" where
  "error_response message =
     JObj [(lit ''status'', JStr (lit ''error'')), (lit ''message'', JStr message)]"

definition typed_response :: "int \<Rightarrow> json" where
  "typed_response typed =
     JObj [(lit ''status'', JStr (lit ''ok'')), (lit ''typed'', JInt typed)]"

definition click_response :: "int \<Rightarrow> int \<Rightarrow> json" where
  "click_response x y =
     JObj [(lit ''status'', JStr (lit ''ok'')), (lit ''action'', JStr (lit ''click'')),
           (lit ''x'', JInt x), (lit ''y'', JInt y)]"

text \<open>Lines 183 to 203: the branch \<^verbatim>\<open>action == "type"\<close>.\<close>

definition type_action :: "lib \<Rightarrow> json \<Rightarrow> unit action" where
  "type_action L message =
     then_do (lift (dict_get message (lit ''text'') JNull)) (\<lambda>text.
     case text of
       JNull \<Rightarrow> send_message L (error_response (lit ''Missing 'text' field''))
     | JStr t \<Rightarrow>
         if length t > MAX_TEXT_LENGTH then
           send_message L (error_response
             (lit ''Text too long ('' @ dec_nat (length t) @ lit '' chars, limit ''
              @ dec_nat MAX_TEXT_LENGTH @ lit '')''))
         else if length t = 0 then send_message L (typed_response 0)
         else
           then_do (lift (dict_get message (lit ''delay'') (seconds_0_05))) (\<lambda>delay.
           then_do (type_text L t delay) (\<lambda>typed.
           send_message L (typed_response (int typed))))
     | _ \<Rightarrow> send_message L (error_response (lit '''text' must be a string'')))"

text \<open>Lines 206 to 216: the branch \<^verbatim>\<open>action == "click"\<close>.\<close>

definition click_action :: "lib \<Rightarrow> json \<Rightarrow> unit action" where
  "click_action L message =
     then_do (lift (dict_get message (lit ''x'') JNull)) (\<lambda>x.
     then_do (lift (dict_get message (lit ''y'') JNull)) (\<lambda>y.
     if x = JNull \<or> y = JNull then
       send_message L (error_response (lit ''Missing 'x' or 'y' for click''))
     else
       then_do (lift (py_int L x)) (\<lambda>x.
       then_do (lift (py_int L y)) (\<lambda>y.
       then_do (click_at L x y) (\<lambda>_.
       send_message L (click_response x y))))))"

text \<open>
  Lines 165 to 219, the body of the second \<^verbatim>\<open>try\<close>; \<open>now\<close> is the value that
  \<^verbatim>\<open>time.monotonic()\<close> returns inside \<^verbatim>\<open>_check_rate_limit\<close>. A
  \<^verbatim>\<open>continue\<close> ends the body without an exception.
\<close>

definition handle_request :: "lib \<Rightarrow> real \<Rightarrow> json \<Rightarrow> unit action" where
  "handle_request L now message s =
     (let (allowed, timestamps) = check_rate_limit now (action_timestamps s);
          s1 = s\<lparr>action_timestamps := timestamps\<rparr>
      in
      if \<not> allowed then
        send_message L (error_response
          (lit ''Rate limit exceeded ('' @ dec_nat RATE_LIMIT_MAX @ lit '' actions per 1.0s)''))
          s1
      else
        then_do (lift (dict_get message (lit ''action'') JNull)) (\<lambda>action.
          if action = JNull then
            (if key_in (lit ''text'') message then type_action L message
             else send_message L (error_response (lit ''Missing 'action' field'')))
          else if action = JStr (lit ''type'') then type_action L message
          else if action = JStr (lit ''click'') then click_action L message
          else send_message L (error_response (lit ''Unknown action: '' @ py_str L action)))
          s1)"

text \<open>
  Lines 164 to 226: the second \<^verbatim>\<open>try\<close> with its handlers. Neither handler catches
  \<^verbatim>\<open>SystemExit\<close>; an exception raised inside a handler is not caught.
\<close>

definition process_message :: "lib \<Rightarrow> real \<Rightarrow> json \<Rightarrow> unit action" where
  "process_message L now message s =
     (case handle_request L now message s of
        (Inr u, s1) \<Rightarrow> (Inr u, s1)
      | (Inl (SystemExit code), s1) \<Rightarrow> (Inl (SystemExit code), s1)
      | (Inl (Exn c m), s1) \<Rightarrow>
          if c = JSONDecodeError then
            send_message L (error_response (lit ''Invalid JSON: '' @ m)) s1
          else send_message L (error_response m) s1)"

text \<open>
  One iteration of \<^verbatim>\<open>while True\<close> (lines 155 to 226); \<open>t\<close> is the clock value
  stored at line 162 and \<open>now\<close> the one read by the rate limiter. The result \<open>Inr ()\<close>
  means that the loop goes on to its next iteration, \<open>Inl (SystemExit code)\<close> that the
  process exits with that code, any other \<open>Inl\<close> that the exception leaves \<^verbatim>\<open>main\<close>.
\<close>

definition main_iteration :: "lib \<Rightarrow> real \<Rightarrow> real \<Rightarrow> unit action" where
  "main_iteration L t now s =
     (case read_message L s of
        (Inl (SystemExit code), s1) \<Rightarrow> (Inl (SystemExit code), s1)
      | (Inl (Exn c m), s1) \<Rightarrow>
          if is_ValueError c then send_message L (error_response m) s1
          else (Inl (Exn c m), s1)
      | (Inr message, s1) \<Rightarrow>
          process_message L now message
            (s1\<lparr>last_activity := t, activity_updates := activity_updates s1 + 1\<rparr>))"

text \<open>
  The loop, for as many iterations as clock values are supplied. The watchdog thread is
  not part of this model.
\<close>

fun main_loop :: "lib \<Rightarrow> (real \<times> real) list \<Rightarrow> unit action" where
  "main_loop L [] s = (Inr (), s)"
| "main_loop L ((t, now) # clock) s =
     (case main_iteration L t now s of
        (Inl e, s1) \<Rightarrow> (Inl e, s1)
      | (Inr u, s1) \<Rightarrow> main_loop L clock s1)"

definition main :: "lib \<Rightarrow> real \<Rightarrow> (real \<times> real) list \<Rightarrow> byte list \<Rightarrow> (exn + unit) \<times> state" where
  "main L t0 clock input =
     main_loop L clock
       \<lparr>stdin = input, stdout = [], calls = [], action_timestamps = [],
        last_activity = t0, activity_updates = 0\<rparr>"

subsection \<open>A sample environment\<close>

text \<open>
  The examples below run the code on a little-endian platform where no injector call
  raises, and where \<^verbatim>\<open>json.loads\<close> is given on the payloads the examples use: it
  returns the value on the compact serialisation of each of \<open>sample_values\<close>, and
  rejects every other payload, as it does the one-byte payload \<^verbatim>\<open>x\<close>.
\<close>

definition sample_values :: "json list" where
  "sample_values =
     [typed_response 0,
      JObj [(lit ''action'', JStr (lit ''type'')), (lit ''text'', JStr (lit ''hi''))],
      JObj [(lit ''action'', JStr (lit ''click'')), (lit ''x'', JInt 500), (lit ''y'', JInt 300)]]"

definition sample_loads :: "byte list \<Rightarrow> exn + json" where
  "sample_loads raw =
     (case map_of (map (\<lambda>v. (map of_nat (dumps_text (\<lambda>r. []) v), v)) sample_values) raw of
        Some v \<Rightarrow> Inr v
      | None \<Rightarrow>
          Inl (Exn JSONDecodeError (lit ''Expecting value: line 1 column 1 (char 0)'')))"

definition sample_lib :: lib where
  "sample_lib =
     \<lparr>little_endian = True,
      json_loads = sample_loads,
      float_repr = (\<lambda>r. []),
      py_str = (\<lambda>v. case v of JStr s \<Rightarrow> s | _ \<Rightarrow> dumps_text (\<lambda>r. []) v),
      int_of_str = (\<lambda>s. Inl (Exn ValueError (lit ''invalid literal for int() with base 10''))),
      raises = (\<lambda>history c. None)\<rparr>"

definition initial_state :: "byte list \<Rightarrow> state" where
  "initial_state input =
     \<lparr>stdin = input, stdout = [], calls = [], action_timestamps = [],
      last_activity = 0, activity_updates = 0\<rparr>"

subsection \<open>Vocabulary of the statements\<close>

text \<open>The value of a field of a request, when the request is an object that has it.\<close>

definition field :: "json \<Rightarrow> string \<Rightarrow> json option" where
  "field message name = (case message of JObj kvs \<Rightarrow> map_of kvs (lit name) | _ \<Rightarrow> None)"

text \<open>
  A request that the code routes to the \<^verbatim>\<open>type\<close> branch: its \<^verbatim>\<open>action\<close> is
  \<^verbatim>\<open>"type"\<close>, or it has no \<^verbatim>\<open>action\<close> (or \<^verbatim>\<open>null\<close>) and has a \<^verbatim>\<open>text\<close> key.
\<close>

definition type_request :: "json \<Rightarrow> bool" where
  "type_request message =
     (case message of
        JObj kvs \<Rightarrow>
          (case map_of kvs (lit ''action'') of
             None \<Rightarrow> map_of kvs (lit ''text'') \<noteq> None
           | Some a \<Rightarrow> a = JStr (lit ''type'') \<or> (a = JNull \<and> map_of kvs (lit ''text'') \<noteq> None))
      | _ \<Rightarrow> False)"

definition click_request :: "json \<Rightarrow> bool" where
  "click_request message = (field message ''action'' = Some (JStr (lit ''click'')))"

text \<open>The rate limiter lets the request through, and the state it leaves.\<close>

definition admits :: "real \<Rightarrow> state \<Rightarrow> bool" where
  "admits now s = fst (check_rate_limit now (action_timestamps s))"

definition admitted :: "real \<Rightarrow> state \<Rightarrow> state" where
  "admitted now s = s\<lparr>action_timestamps := snd (check_rate_limit now (action_timestamps s))\<rparr>"

text \<open>A number below zero.\<close>

fun negative :: "json \<Rightarrow> bool" where
  "negative (JInt i) = (i < 0)"
| "negative (JFloat (Finite r)) = (r < 0)"
| "negative (JFloat NegInf) = True"
| "negative v = False"

text \<open>The value of a finite number: an \<^verbatim>\<open>int\<close>, a \<^verbatim>\<open>bool\<close> or a finite \<^verbatim>\<open>float\<close>.\<close>

fun numeric_value :: "json \<Rightarrow> real option" where
  "numeric_value (JInt i) = Some (of_int i)"
| "numeric_value (JBool b) = Some (if b then 1 else 0)"
| "numeric_value (JFloat (Finite r)) = Some r"
| "numeric_value v = None"

text \<open>The calls that typing \<open>text\<close> makes when none raises.\<close>

definition typing_calls :: "json \<Rightarrow> bool \<Rightarrow> pystr \<Rightarrow> call list" where
  "typing_calls delay pause text =
     KeyboardController
     # concat (map (\<lambda>char. KeyboardType char # (if pause then [Sleep delay] else [])) text)"

text \<open>The bytes that \<^verbatim>\<open>send_message\<close> writes to an empty stdout.\<close>

definition sent_bytes :: "lib \<Rightarrow> json \<Rightarrow> byte list" where
  "sent_bytes L response = stdout (snd (send_message L response (initial_state [])))"

text \<open>What the watchdog reads, and how often the loop has written it.\<close>

definition activity :: "state \<Rightarrow> real \<times> nat" where
  "activity s = (last_activity s, activity_updates s)"

text \<open>Requests and a response for the examples.\<close>

definition long_response :: json where
  "long_response = error_response (lit ''Unknown action: '' @ replicate 1048563 97)"

definition empty_text_request :: json where
  "empty_text_request = JObj [(lit ''action'', JStr (lit ''type'')), (lit ''text'', JStr [])]"


definition missing_text_request :: json where
  "missing_text_request = JObj [(lit ''action'', JStr (lit ''type''))]"

definition number_text_request :: json where
  "number_text_request = JObj [(lit ''action'', JStr (lit ''type'')), (lit ''text'', JInt 7)]"

definition long_text_request :: json where
  "long_text_request =
     JObj [(lit ''action'', JStr (lit ''type'')), (lit ''text'', JStr (replicate 10001 97))]"

definition negative_delay_request :: json where
  "negative_delay_request =
     JObj [(lit ''action'', JStr (lit ''type'')), (lit ''text'', JStr (lit ''ab'')),
           (lit ''delay'', JInt (- 1))]"

definition float_click_request :: json where
  "float_click_request =
     JObj [(lit ''action'', JStr (lit ''click'')), (lit ''x'', JFloat (Finite 2.7)),
           (lit ''y'', JFloat (Finite (- 2.7)))]"

definition infinite_click_request :: json where
  "infinite_click_request =
     JObj [(lit ''action'', JStr (lit ''click'')), (lit ''x'', JFloat PosInf),
           (lit ''y'', JFloat (Finite 2.5))]"

text \<open>
  A state in which 20 actions were admitted between 1.00 and 1.19 seconds, and the Response
  that the rate limiter's denial sends.
\<close>

definition saturated_state :: state where
  "saturated_state =
     (initial_state [])\<lparr>action_timestamps :=
        [1.00, 1.01, 1.02, 1.03, 1.04, 1.05, 1.06, 1.07, 1.08, 1.09,
         1.10, 1.11, 1.12, 1.13, 1.14, 1.15, 1.16, 1.17, 1.18, 1.19]\<rparr>"

definition rate_limit_response :: json where
  "rate_limit_response = error_response (lit ''Rate limit exceeded (20 actions per 1.0s)'')"

section \<open>Properties\<close>

subsection \<open>Rate limiter\<close>

lemma discard_outside_sorted:
  "sorted timestamps \<Longrightarrow>
   discard_outside now timestamps = filter (\<lambda>t. now - 1 < t) timestamps"
proof (induction timestamps)
  case Nil
  show ?case by simp
next
  case (Cons t ts)
  show ?case
  proof (cases "t \<le> now - 1")
    case True
    with Cons show ?thesis by (simp add: RATE_LIMIT_WINDOW_def)
  next
    case False
    with Cons.prems have "\<forall>u \<in> set ts. now - 1 < u" by fastforce
    then have "filter (\<lambda>t. now - 1 < t) ts = ts" by simp
    with False show ?thesis by (simp add: RATE_LIMIT_WINDOW_def)
  qed
qed

text \<open>
  C1 (as the code has it). For a state whose timestamps are in non-decreasing order (the
  order in which the monotonic clock produced them) and every \<open>now\<close>, the admission check
  discards every timestamp less than or equal to \<open>now - 1.0\<close>; if fewer than 20 remain it
  appends \<open>now\<close> and allows, otherwise it denies and leaves the remaining list as it is.
\<close>

theorem check_rate_limit_sliding_window:
  assumes "sorted timestamps"
  shows "check_rate_limit now timestamps =
     (let remaining = filter (\<lambda>t. now - 1.0 < t) timestamps in
      if length remaining < 20 then (True, remaining @ [now])
      else (False, remaining))"
  using discard_outside_sorted [OF assms, of now]
  by (simp add: check_rate_limit_def RATE_LIMIT_MAX_def Let_def)

theorem check_rate_limit_sliding_window_witness:
  "sorted [1, 1.5, 2.25 :: real] \<and>
   check_rate_limit 2.5 [1, 1.5, 2.25] = (True, [2.25, 2.5])"
  using check_rate_limit_sliding_window [of "[1, 1.5, 2.25]" "2.5"]
  by simp

text \<open>
  C1 as stated fails on the boundary: a timestamp equal to \<open>now - 1.0\<close> is discarded by
  the code, while the specification's wording keeps it.
\<close>

theorem check_rate_limit_boundary_counterexample:
  "check_rate_limit 2 [1] = (True, [2]) \<and> tryAdmit_spec 2 [1] = (True, [1, 2])
   \<and> check_rate_limit 2 [1] \<noteq> tryAdmit_spec 2 [1]"
  by (simp add: check_rate_limit_def tryAdmit_spec_def RATE_LIMIT_MAX_def
      RATE_LIMIT_WINDOW_def)

subsection \<open>Evaluation and sequencing\<close>

text \<open>
  The equation of \<open>dec_nat\<close> is unfolded on demand only.
\<close>

declare dec_nat.simps [simp del]

lemma lit_simps: "lit [] = []" "lit (c # cs) = of_char c # lit cs"
  by (simp_all add: lit_def)

lemma then_do_lift_Inr: "then_do (lift (Inr a)) f s = f a s"
  by (simp add: then_do_def lift_def)

lemma then_do_lift_Inl: "then_do (lift (Inl e)) f s = (Inl e, s)"
  by (simp add: then_do_def lift_def)

lemma then_do_ok: "m s = (Inr a, s1) \<Longrightarrow> then_do m f s = f a s1"
  by (simp add: then_do_def)

lemma then_do_fst_Inl: "fst (m s) = Inl e \<Longrightarrow> fst (then_do m f s) = Inl e"
  by (cases "m s") (simp add: then_do_def)

lemma then_do_perform:
  "raises L (calls s) c = None \<Longrightarrow>
   then_do (perform L c) f s = f () (s\<lparr>calls := calls s @ [c]\<rparr>)"
  by (simp add: then_do_def perform_def Let_def)

subsection \<open>Four-byte length prefixes\<close>

lemma unat_byte_of_nat: "m < 256 \<Longrightarrow> unat (of_nat m :: byte) = m"
  by (simp add: unat_of_nat take_bit_eq_mod)

lemma four_bytes_value:
  assumes "n < 2 ^ 32"
  shows "n mod 256 + 256 * (n div 256 mod 256 + 256 * (n div 65536 mod 256
          + 256 * (n div 16777216 mod 256))) = (n::nat)"
proof -
  have a: "n div 65536 = n div 256 div 256"
    by (simp add: div_mult2_eq [symmetric])
  have b: "n div 16777216 = n div 256 div 256 div 256"
    by (simp add: div_mult2_eq [symmetric])
  have "n div 16777216 < 256"
    using assms by (simp add: less_mult_imp_div_less)
  then have c: "n div 256 div 256 div 256 mod 256 = n div 256 div 256 div 256"
    unfolding b by simp
  show ?thesis
    unfolding a b c by (simp add: mult_div_mod_eq)
qed

lemma pack_I_unpack_I:
  assumes "n < 2 ^ 32"
  shows "\<exists>raw. pack_I le n = Inr raw \<and> length raw = 4 \<and> unpack_I le raw = n"
proof -
  have "n div 16777216 < 256"
    using assms by (simp add: less_mult_imp_div_less)
  then show ?thesis
    using assms four_bytes_value [OF assms]
    by (simp add: pack_I_def unpack_I_def unat_byte_of_nat Let_def)
qed

lemma limit_message:
  "lit ''Message exceeds '' @ dec_nat MAX_MESSAGE_BYTES @ lit '' byte limit''
   = lit ''Message exceeds 1048576 byte limit''"
  by (simp add: MAX_MESSAGE_BYTES_def lit_simps dec_nat.simps)


lemma send_then_read:
  assumes "length (json_dumps L response) < 2 ^ 32"
  shows "\<exists>raw. length raw = 4
     \<and> unpack_I (little_endian L) raw = length (json_dumps L response)
     \<and> sent_bytes L response = raw @ json_dumps L response
     \<and> (\<forall>s. send_message L response s = (Inr (), s\<lparr>stdout := stdout s @ raw @ json_dumps L response\<rparr>))"
proof -
  obtain raw where r: "pack_I (little_endian L) (length (json_dumps L response)) = Inr raw"
      "length raw = 4" "unpack_I (little_endian L) raw = length (json_dumps L response)"
    using pack_I_unpack_I [OF assms] by blast
  then show ?thesis
    by (simp add: sent_bytes_def send_message_def initial_state_def)
qed

subsection \<open>Exit codes of the frame reader\<close>

text \<open>
  C5. When the read of the 4-byte length prefix returns no byte, the process exits with code
  0; when it returns 1 to 3 bytes, the process exits with code 1; when the prefix is within
  the limit and the body read returns fewer bytes than it declares, the process exits with
  code 1. The exit is the \<^verbatim>\<open>SystemExit\<close> that \<^verbatim>\<open>read_message\<close> raises and that no
  handler of the loop catches.
\<close>

theorem read_exit_codes:
  "(stdin s = [] \<longrightarrow> fst (main_iteration L t now s) = Inl (SystemExit 0)) \<and>
   (0 < length (stdin s) \<and> length (stdin s) < 4 \<longrightarrow>
      fst (main_iteration L t now s) = Inl (SystemExit 1)) \<and>
   (4 \<le> length (stdin s) \<and>
    unpack_I (little_endian L) (take 4 (stdin s)) \<le> MAX_MESSAGE_BYTES \<and>
    length (stdin s) - 4 < unpack_I (little_endian L) (take 4 (stdin s)) \<longrightarrow>
      fst (main_iteration L t now s) = Inl (SystemExit 1))"
  by (simp add: main_iteration_def read_message_def read_frame_def then_do_def stdin_read_def
      Let_def min_def)

text \<open>
  The three cases on a little-endian platform: an empty stdin, a stdin of two bytes, and a
  prefix declaring seven bytes followed by two.
\<close>

theorem read_exit_codes_witness:
  "stdin (initial_state []) = [] \<and>
   fst (main_iteration sample_lib 1 1 (initial_state [])) = Inl (SystemExit 0) \<and>
   0 < length (stdin (initial_state [7, 0])) \<and> length (stdin (initial_state [7, 0])) < 4 \<and>
   fst (main_iteration sample_lib 1 1 (initial_state [7, 0])) = Inl (SystemExit 1) \<and>
   4 \<le> length (stdin (initial_state [7, 0, 0, 0, 123, 125])) \<and>
   unpack_I (little_endian sample_lib) (take 4 (stdin (initial_state [7, 0, 0, 0, 123, 125])))
     \<le> MAX_MESSAGE_BYTES \<and>
   length (stdin (initial_state [7, 0, 0, 0, 123, 125])) - 4
     < unpack_I (little_endian sample_lib) (take 4 (stdin (initial_state [7, 0, 0, 0, 123, 125]))) \<and>
   fst (main_iteration sample_lib 1 1 (initial_state [7, 0, 0, 0, 123, 125])) = Inl (SystemExit 1)"
  using read_exit_codes [of "initial_state []" sample_lib 1 1]
    read_exit_codes [of "initial_state [7, 0]" sample_lib 1 1]
    read_exit_codes [of "initial_state [7, 0, 0, 0, 123, 125]" sample_lib 1 1]
  by (simp add: initial_state_def sample_lib_def unpack_I_def MAX_MESSAGE_BYTES_def)

subsection \<open>Oversized frames\<close>



subsection \<open>The last-activity timestamp\<close>

text \<open>
  No function called by the loop writes \<^verbatim>\<open>last_activity[0]\<close>; only line 162 does.
\<close>

lemma activity_send: "activity (snd (send_message L response s)) = activity s"
  by (simp add: send_message_def activity_def Let_def split: sum.splits)

lemma activity_perform: "activity (snd (perform L c s)) = activity s"
  by (simp add: perform_def activity_def Let_def split: option.splits)

lemma activity_lift: "activity (snd (lift r s)) = activity s"
  by (simp add: lift_def)

lemma activity_then_do:
  assumes "\<And>s. activity (snd (m s)) = activity s"
    and "\<And>a s. activity (snd (f a s)) = activity s"
  shows "activity (snd (then_do m f s)) = activity s"
proof (cases "m s")
  case (Pair r s1)
  with assms(1) [of s] have "activity s1 = activity s"
    by simp
  with Pair assms(2) show ?thesis
    by (cases r) (simp_all add: then_do_def)
qed

lemma activity_type_chars: "activity (snd (type_chars L delay cs count s)) = activity s"
proof (induction cs arbitrary: count s)
  case Nil
  show ?case by (simp add: ret_def)
next
  case (Cons c cs)
  show ?case
    by (simp add: activity_then_do activity_perform activity_lift Cons.IH)
qed

lemma activity_type_text: "activity (snd (type_text L t delay s)) = activity s"
  by (simp add: type_text_def activity_then_do activity_perform activity_type_chars)

lemma activity_click_at: "activity (snd (click_at L x y s)) = activity s"
  by (simp add: click_at_def activity_then_do activity_perform)

lemma activity_type_action: "activity (snd (type_action L message s)) = activity s"
  unfolding type_action_def
  by (rule activity_then_do)
    (simp_all add: activity_lift activity_send activity_then_do activity_type_text
      split: json.splits)

lemma activity_click_action: "activity (snd (click_action L message s)) = activity s"
  unfolding click_action_def
  by (intro activity_then_do activity_lift)
    (simp_all add: activity_lift activity_send activity_then_do activity_click_at)

lemma activity_handle_request: "activity (snd (handle_request L now message s)) = activity s"
proof -
  have "activity (s\<lparr>action_timestamps := ts\<rparr>) = activity s" for ts
    by (simp add: activity_def)
  then show ?thesis
    by (simp add: handle_request_def split_beta Let_def activity_send activity_then_do
        activity_lift activity_type_action activity_click_action)
qed

lemma activity_process_message: "activity (snd (process_message L now message s)) = activity s"
proof (cases "handle_request L now message s")
  case (Pair r s1)
  with activity_handle_request [of L now message s] have "activity s1 = activity s"
    by simp
  with Pair show ?thesis
    by (simp add: process_message_def activity_send split: sum.splits exn.splits)
qed

lemma activity_read_frame: "activity (snd (read_frame L s)) = activity s"
  by (simp add: read_frame_def stdin_read_def activity_def Let_def)

lemma activity_read_message: "activity (snd (read_message L s)) = activity s"
  by (simp add: read_message_def activity_then_do activity_read_frame activity_lift)

text \<open>
  When \<^verbatim>\<open>read_message\<close> returns a message, the iteration writes the timestamp exactly
  once, whatever the dispatcher then does with the message; when \<^verbatim>\<open>read_message\<close>
  raises, the iteration does not write it.
\<close>

lemma decoded_frame_updates_once:
  assumes "fst (read_message L s) = Inr message"
  shows "activity (snd (main_iteration L t now s)) = (t, activity_updates s + 1)"
proof (cases "read_message L s")
  case (Pair r s1)
  with assms have r: "r = Inr message"
    by simp
  from Pair activity_read_message [of L s] have "activity s1 = activity s"
    by simp
  then have "activity (s1\<lparr>last_activity := t, activity_updates := activity_updates s1 + 1\<rparr>)
      = (t, activity_updates s + 1)"
    by (simp add: activity_def)
  with Pair r show ?thesis
    by (simp add: main_iteration_def activity_process_message)
qed

lemma unread_frame_no_update:
  assumes "fst (read_message L s) = Inl e"
  shows "activity (snd (main_iteration L t now s)) = activity s"
proof (cases "read_message L s")
  case (Pair r s1)
  with assms have r: "r = Inl e"
    by simp
  from Pair activity_read_message [of L s] have "activity s1 = activity s"
    by simp
  with Pair r show ?thesis
    by (cases e) (simp_all add: main_iteration_def activity_send)
qed

lemma sample_loads_x:
  "json_loads sample_lib [120]
   = Inl (Exn JSONDecodeError (lit ''Expecting value: line 1 column 1 (char 0)''))"
  by (simp add: sample_lib_def sample_loads_def sample_values_def typed_response_def
      dumps_str_def escape_char_def lit_simps)

text \<open>
  C2. The claim asks for one update for every frame that arrives in full, also when its
  payload is not JSON. The code does not do that: \<^verbatim>\<open>json.loads\<close> runs inside
  \<^verbatim>\<open>read_message\<close>, in the first \<^verbatim>\<open>try\<close>, and \<^verbatim>\<open>json.JSONDecodeError\<close> is a
  \<^verbatim>\<open>ValueError\<close>, so the handler commented \<^verbatim>\<open>Message size exceeded\<close> catches it and
  continues before line 162. The frame \<^verbatim>\<open>01 00 00 00 78\<close> (one byte of payload,
  \<^verbatim>\<open>x\<close>) is read in full, answered with an error Response, and leaves the timestamp and
  the count of its updates as they were.
\<close>

theorem undecodable_frame_no_activity_update:
  "read_frame sample_lib (initial_state [1, 0, 0, 0, 120]) = (Inr [120], initial_state [])
   \<and> main_iteration sample_lib 5 5 (initial_state [1, 0, 0, 0, 120])
       = send_message sample_lib
           (error_response (lit ''Expecting value: line 1 column 1 (char 0)''))
           (initial_state [])
   \<and> fst (main_iteration sample_lib 5 5 (initial_state [1, 0, 0, 0, 120])) = Inr ()
   \<and> activity_updates (snd (main_iteration sample_lib 5 5 (initial_state [1, 0, 0, 0, 120]))) = 0
   \<and> last_activity (snd (main_iteration sample_lib 5 5 (initial_state [1, 0, 0, 0, 120]))) = 0"
proof -
  have f: "read_frame sample_lib (initial_state [1, 0, 0, 0, 120]) = (Inr [120], initial_state [])"
    by (simp add: read_frame_def stdin_read_def initial_state_def unpack_I_def
        MAX_MESSAGE_BYTES_def sample_lib_def)
  have r: "read_message sample_lib (initial_state [1, 0, 0, 0, 120])
      = (Inl (Exn JSONDecodeError (lit ''Expecting value: line 1 column 1 (char 0)'')),
         initial_state [])"
    by (simp add: read_message_def then_do_def f lift_def sample_loads_x)
  have m: "main_iteration sample_lib 5 5 (initial_state [1, 0, 0, 0, 120])
       = send_message sample_lib
           (error_response (lit ''Expecting value: line 1 column 1 (char 0)''))
           (initial_state [])"
    by (simp add: main_iteration_def r)
  have s: "send_message sample_lib
           (error_response (lit ''Expecting value: line 1 column 1 (char 0)''))
           (initial_state [])
       = (Inr (), (initial_state [])\<lparr>stdout := sent_bytes sample_lib
           (error_response (lit ''Expecting value: line 1 column 1 (char 0)''))\<rparr>)"
    by (simp add: sent_bytes_def send_message_def json_dumps_def error_response_def
        dumps_str_def escape_char_def pack_I_def lit_simps)
      (simp add: initial_state_def sample_lib_def)
  have "fst (main_iteration sample_lib 5 5 (initial_state [1, 0, 0, 0, 120])) = Inr ()"
    and "activity_updates (snd (main_iteration sample_lib 5 5 (initial_state [1, 0, 0, 0, 120]))) = 0"
    and "last_activity (snd (main_iteration sample_lib 5 5 (initial_state [1, 0, 0, 0, 120]))) = 0"
    unfolding m s by (simp_all add: initial_state_def)
  with f m show ?thesis
    by blast
qed

subsection \<open>The dispatcher\<close>

lemma send_message_calls: "calls (snd (send_message L response s)) = calls s"
  by (simp add: send_message_def Let_def split: sum.splits)

lemma type_chars_ok:
  assumes "\<forall>h c. raises L h c = None" and "greater_zero delay = Inr pause"
  shows "type_chars L delay text count s =
     (Inr (count + length text),
      s\<lparr>calls := calls s
         @ concat (map (\<lambda>char. KeyboardType char # (if pause then [Sleep delay] else [])) text)\<rparr>)"
proof (induction "text" arbitrary: count s)
  case Nil
  show ?case by (simp add: ret_def)
next
  case (Cons c cs)
  show ?case
    using assms by (simp add: then_do_perform then_do_lift_Inr Cons.IH)
qed

lemma type_text_ok:
  assumes "\<forall>h c. raises L h c = None" and "greater_zero delay = Inr pause"
  shows "type_text L text delay s =
     (Inr (length text), s\<lparr>calls := calls s @ typing_calls delay pause text\<rparr>)"
  using assms(1) by (simp add: type_text_def then_do_perform type_chars_ok [OF assms] typing_calls_def)

lemma click_at_ok:
  assumes "\<forall>h c. raises L h c = None"
  shows "click_at L x y s =
     (Inr (), s\<lparr>calls := calls s
        @ [MouseController, MousePosition x y, Sleep (seconds_0_05), MouseClick]\<rparr>)"
  using assms by (simp add: click_at_def then_do_perform perform_def)

lemma dispatch_type:
  assumes "type_request message" and "admits now s"
  shows "handle_request L now message s = type_action L message (admitted now s)"
proof -
  obtain kvs where m: "message = JObj kvs"
    using assms(1) by (cases message) (simp_all add: type_request_def)
  show ?thesis
  proof (cases "map_of kvs (lit ''action'')")
    case None
    with assms m show ?thesis
      by (simp add: handle_request_def type_request_def admits_def admitted_def
          then_do_lift_Inr split_beta)
  next
    case (Some a)
    with assms m show ?thesis
      by (auto simp add: handle_request_def type_request_def admits_def admitted_def
          then_do_lift_Inr split_beta)
  qed
qed

lemma dispatch_click:
  assumes "click_request message" and "admits now s"
  shows "handle_request L now message s = click_action L message (admitted now s)"
proof -
  obtain kvs where m: "message = JObj kvs"
    using assms(1) by (cases message) (simp_all add: click_request_def field_def)
  with assms show ?thesis
    by (simp add: handle_request_def click_request_def field_def admits_def admitted_def
        then_do_lift_Inr split_beta lit_simps)
qed

text \<open>
  A request that the rate limiter denies is answered with the rate-limit error, whatever it
  asks for, and reaches no branch of the dispatcher.
\<close>

lemma rate_limited_request_rejected:
  assumes "\<not> admits now s"
  shows "handle_request L now message s =
           send_message L (error_response (lit ''Rate limit exceeded (20 actions per 1.0s)''))
             (admitted now s)"
  using assms
  by (simp add: handle_request_def admits_def admitted_def split_beta RATE_LIMIT_MAX_def
      dec_nat.simps lit_simps)

text \<open>At 1.5 seconds all 20 timestamps are still inside the window.\<close>

lemma saturated_denied:
  "\<not> admits 1.5 saturated_state" "admitted 1.5 saturated_state = saturated_state"
  by (simp_all add: admits_def admitted_def saturated_state_def check_rate_limit_def
      RATE_LIMIT_WINDOW_def RATE_LIMIT_MAX_def)

lemma type_action_obj:
  "type_action L (JObj kvs) s =
     (case map_of kvs (lit ''text'') of
        None \<Rightarrow> send_message L (error_response (lit ''Missing 'text' field'')) s
      | Some JNull \<Rightarrow> send_message L (error_response (lit ''Missing 'text' field'')) s
      | Some (JStr t) \<Rightarrow>
          if length t > MAX_TEXT_LENGTH then
            send_message L (error_response
              (lit ''Text too long ('' @ dec_nat (length t) @ lit '' chars, limit ''
               @ dec_nat MAX_TEXT_LENGTH @ lit '')'')) s
          else if length t = 0 then send_message L (typed_response 0) s
          else
            then_do (type_text L t
                (case map_of kvs (lit ''delay'') of None \<Rightarrow> seconds_0_05 | Some d \<Rightarrow> d))
              (\<lambda>typed. send_message L (typed_response (int typed))) s
      | Some v \<Rightarrow> send_message L (error_response (lit '''text' must be a string'')) s)"
  by (simp add: type_action_def then_do_lift_Inr split: option.splits json.splits)

lemma negative_not_greater: "negative d \<Longrightarrow> greater_zero d = Inr False"
  by (induction d rule: negative.induct) simp_all

lemma py_int_numeric: "numeric_value v = Some r \<Longrightarrow> py_int L v = Inr (trunc_toward_zero r)"
  by (induction v rule: numeric_value.induct) (auto simp add: trunc_toward_zero_def)

lemma typed_response_0_bytes:
  \<open>json_dumps L (typed_response 0) = map of_nat (lit ''{"status":"ok","typed":0}'')\<close>
  by (simp add: json_dumps_def typed_response_def dumps_str_def escape_char_def dec_int_def
      dec_nat.simps lit_simps)

lemma admits_initial: "admits now (initial_state input)"
  by (simp add: admits_def check_rate_limit_def initial_state_def RATE_LIMIT_MAX_def)

lemma admitted_initial:
  "admitted now (initial_state input) = (initial_state input)\<lparr>action_timestamps := [now]\<rparr>"
  by (simp add: admitted_def check_rate_limit_def initial_state_def RATE_LIMIT_MAX_def)

lemma raises_sample: "\<forall>history c. raises sample_lib history c = None"
  by (simp add: sample_lib_def)

text \<open>
  C3 (as the code has it). For a \<^verbatim>\<open>type\<close> request that the rate limiter admits, the
  dispatcher checks that \<^verbatim>\<open>text\<close> is present and not \<^verbatim>\<open>null\<close>, is a string, and has
  at most 10,000 characters; each failure is answered with its error Response and no
  injector call is made. \<^verbatim>\<open>delay\<close> is not validated: with a non-empty \<^verbatim>\<open>text\<close> within
  the limit and a negative \<^verbatim>\<open>delay\<close>, every character is typed without a pause and, when
  no injector call raises, the Response is the success Response with the length of
  \<^verbatim>\<open>text\<close>.
\<close>

theorem type_request_validation:
  assumes "type_request message" and "admits now s"
  shows "(field message ''text'' = None \<or> field message ''text'' = Some JNull \<longrightarrow>
            handle_request L now message s =
              send_message L (error_response (lit ''Missing 'text' field'')) (admitted now s)
          \<and> calls (snd (handle_request L now message s)) = calls s)
       \<and> (\<forall>v. field message ''text'' = Some v \<and> v \<noteq> JNull \<and> (\<forall>t. v \<noteq> JStr t) \<longrightarrow>
            handle_request L now message s =
              send_message L (error_response (lit '''text' must be a string'')) (admitted now s)
          \<and> calls (snd (handle_request L now message s)) = calls s)
       \<and> (\<forall>t. field message ''text'' = Some (JStr t) \<and> 10000 < length t \<longrightarrow>
            handle_request L now message s =
              send_message L (error_response
                (lit ''Text too long ('' @ dec_nat (length t) @ lit '' chars, limit 10000)''))
                (admitted now s)
          \<and> calls (snd (handle_request L now message s)) = calls s)
       \<and> (\<forall>t d. field message ''text'' = Some (JStr t) \<and> 0 < length t \<and> length t \<le> 10000
              \<and> field message ''delay'' = Some d \<and> negative d
              \<and> (\<forall>history c. raises L history c = None) \<longrightarrow>
            handle_request L now message s =
              send_message L (typed_response (int (length t)))
                ((admitted now s)\<lparr>calls := calls s @ KeyboardController # map KeyboardType t\<rparr>))"
proof -
  obtain kvs where m: "message = JObj kvs"
    using assms(1) by (cases message) (simp_all add: type_request_def)
  have h: "handle_request L now message s = type_action L (JObj kvs) (admitted now s)"
    using dispatch_type [OF assms] by (simp add: m)
  have c: "calls (admitted now s) = calls s"
    by (simp add: admitted_def)
  have missing: "field message ''text'' = None \<or> field message ''text'' = Some JNull \<longrightarrow>
            handle_request L now message s =
              send_message L (error_response (lit ''Missing 'text' field'')) (admitted now s)
          \<and> calls (snd (handle_request L now message s)) = calls s"
    unfolding h type_action_obj by (auto simp add: m field_def send_message_calls c)
  have not_str: "\<forall>v. field message ''text'' = Some v \<and> v \<noteq> JNull \<and> (\<forall>t. v \<noteq> JStr t) \<longrightarrow>
            handle_request L now message s =
              send_message L (error_response (lit '''text' must be a string'')) (admitted now s)
          \<and> calls (snd (handle_request L now message s)) = calls s"
    unfolding h type_action_obj
    by (auto simp add: m field_def send_message_calls c split: json.splits)
  have too_long: "\<forall>t. field message ''text'' = Some (JStr t) \<and> 10000 < length t \<longrightarrow>
            handle_request L now message s =
              send_message L (error_response
                (lit ''Text too long ('' @ dec_nat (length t) @ lit '' chars, limit 10000)''))
                (admitted now s)
          \<and> calls (snd (handle_request L now message s)) = calls s"
    unfolding h type_action_obj
    by (auto simp add: m field_def send_message_calls c MAX_TEXT_LENGTH_def dec_nat.simps
        lit_simps)
  have neg: "\<forall>t d. field message ''text'' = Some (JStr t) \<and> 0 < length t \<and> length t \<le> 10000
              \<and> field message ''delay'' = Some d \<and> negative d
              \<and> (\<forall>history c. raises L history c = None) \<longrightarrow>
            handle_request L now message s =
              send_message L (typed_response (int (length t)))
                ((admitted now s)\<lparr>calls := calls s @ KeyboardController # map KeyboardType t\<rparr>)"
  proof (intro allI impI)
    fix t d
    assume a: "field message ''text'' = Some (JStr t) \<and> 0 < length t \<and> length t \<le> 10000
              \<and> field message ''delay'' = Some d \<and> negative d
              \<and> (\<forall>history c. raises L history c = None)"
    then have g: "greater_zero d = Inr False"
      by (simp add: negative_not_greater)
    from a have r: "\<forall>history c. raises L history c = None"
      by simp
    have "typing_calls d False t = KeyboardController # map KeyboardType t"
      by (induction t) (simp_all add: typing_calls_def)
    with a show "handle_request L now message s =
              send_message L (typed_response (int (length t)))
                ((admitted now s)\<lparr>calls := calls s @ KeyboardController # map KeyboardType t\<rparr>)"
      unfolding h type_action_obj
      by (simp add: m field_def MAX_TEXT_LENGTH_def then_do_def type_text_ok [OF r g] c)
  qed
  from missing not_str too_long neg show ?thesis
    by blast
qed

text \<open>
  The four cases: no \<^verbatim>\<open>text\<close>, a number as \<^verbatim>\<open>text\<close>, a \<^verbatim>\<open>text\<close> of 10,001
  characters, and \<^verbatim>\<open>{"action":"type","text":"ab","delay":-1}\<close>.
\<close>

theorem type_request_validation_witness:
  "type_request missing_text_request \<and> type_request number_text_request
   \<and> type_request long_text_request \<and> type_request negative_delay_request
   \<and> admits 1 (initial_state [])
   \<and> field missing_text_request ''text'' = None
   \<and> handle_request sample_lib 1 missing_text_request (initial_state [])
       = send_message sample_lib (error_response (lit ''Missing 'text' field''))
           (admitted 1 (initial_state []))
   \<and> field number_text_request ''text'' = Some (JInt 7)
   \<and> handle_request sample_lib 1 number_text_request (initial_state [])
       = send_message sample_lib (error_response (lit '''text' must be a string''))
           (admitted 1 (initial_state []))
   \<and> field long_text_request ''text'' = Some (JStr (replicate 10001 97))
   \<and> 10000 < length (replicate 10001 (97::nat))
   \<and> calls (snd (handle_request sample_lib 1 long_text_request (initial_state [])))
       = calls (initial_state [])
   \<and> field negative_delay_request ''text'' = Some (JStr (lit ''ab''))
   \<and> field negative_delay_request ''delay'' = Some (JInt (- 1)) \<and> negative (JInt (- 1))
   \<and> (\<forall>history c. raises sample_lib history c = None)
   \<and> handle_request sample_lib 1 negative_delay_request (initial_state [])
       = send_message sample_lib (typed_response (int (length (lit ''ab''))))
           ((admitted 1 (initial_state []))\<lparr>calls := calls (initial_state [])
              @ KeyboardController # map KeyboardType (lit ''ab'')\<rparr>)"
proof -
  have a1: "type_request missing_text_request"
    by (simp add: type_request_def missing_text_request_def)
  have a2: "type_request number_text_request"
    by (simp add: type_request_def number_text_request_def)
  have a3: "type_request long_text_request"
    by (simp add: type_request_def long_text_request_def)
  have a4: "type_request negative_delay_request"
    by (simp add: type_request_def negative_delay_request_def)
  note adm = admits_initial [of 1 "[]"]
  have f1: "field missing_text_request ''text'' = None"
    by (simp add: field_def missing_text_request_def lit_simps)
  have f2: "field number_text_request ''text'' = Some (JInt 7)"
    and n2: "JInt 7 \<noteq> JNull" "\<forall>t. JInt 7 \<noteq> JStr t"
    by (simp_all add: field_def number_text_request_def lit_simps)
  have f3: "field long_text_request ''text'' = Some (JStr (replicate 10001 97))"
    and l3: "10000 < length (replicate 10001 (97::nat))"
    by (simp_all add: field_def long_text_request_def lit_simps)
  have f4: "field negative_delay_request ''text'' = Some (JStr (lit ''ab''))"
    and d4: "field negative_delay_request ''delay'' = Some (JInt (- 1))"
    and n4: "negative (JInt (- 1))"
    and l4: "0 < length (lit ''ab'')" "length (lit ''ab'') \<le> 10000"
    by (simp_all add: field_def negative_delay_request_def lit_simps)
  have r1: "handle_request sample_lib 1 missing_text_request (initial_state [])
       = send_message sample_lib (error_response (lit ''Missing 'text' field''))
           (admitted 1 (initial_state []))"
    using type_request_validation [OF a1 adm, of sample_lib] f1 by blast
  have r2: "handle_request sample_lib 1 number_text_request (initial_state [])
       = send_message sample_lib (error_response (lit '''text' must be a string''))
           (admitted 1 (initial_state []))"
    using type_request_validation [OF a2 adm, of sample_lib] f2 n2 by blast
  have r3: "calls (snd (handle_request sample_lib 1 long_text_request (initial_state [])))
       = calls (initial_state [])"
    using type_request_validation [OF a3 adm, of sample_lib] f3 l3 by blast
  have r4: "handle_request sample_lib 1 negative_delay_request (initial_state [])
       = send_message sample_lib (typed_response (int (length (lit ''ab''))))
           ((admitted 1 (initial_state []))\<lparr>calls := calls (initial_state [])
              @ KeyboardController # map KeyboardType (lit ''ab'')\<rparr>)"
    using type_request_validation [OF a4 adm, of sample_lib] f4 d4 n4 l4 raises_sample by blast
  from a1 a2 a3 a4 adm f1 r1 f2 r2 f3 l3 r3 f4 d4 n4 raises_sample r4 show ?thesis
    by blast
qed

text \<open>
  C3 as stated fails: the request \<^verbatim>\<open>{"action":"type","text":"ab","delay":-1}\<close> is not
  rejected. The injector types both characters and the Response is
  \<^verbatim>\<open>{"status":"ok","typed":2}\<close>.
\<close>

theorem negative_delay_accepted:
  \<open>type_request negative_delay_request
   \<and> field negative_delay_request ''delay'' = Some (JInt (- 1))
   \<and> handle_request sample_lib 1 negative_delay_request (initial_state [])
       = (Inr (), (initial_state [])\<lparr>action_timestamps := [1],
            calls := [KeyboardController, KeyboardType 97, KeyboardType 98],
            stdout := [25, 0, 0, 0] @ map of_nat (lit ''{"status":"ok","typed":2}'')\<rparr>)\<close>
proof -
  have a: "type_request negative_delay_request"
    by (simp add: type_request_def negative_delay_request_def)
  have b: "field negative_delay_request ''delay'' = Some (JInt (- 1))"
    by (simp add: field_def negative_delay_request_def lit_simps)
  have g: "greater_zero (JInt (- 1)) = Inr False"
    by simp
  have t: "type_text sample_lib [97, 98] (JInt (- 1)) s
      = (Inr 2, s\<lparr>calls := calls s @ [KeyboardController, KeyboardType 97, KeyboardType 98]\<rparr>)"
    for s
    using type_text_ok [OF raises_sample g, of "[97, 98]" s]
    by (simp add: typing_calls_def)
  have d: \<open>send_message sample_lib (typed_response 2) s
      = (Inr (), s\<lparr>stdout := stdout s @ [25, 0, 0, 0]
           @ map of_nat (lit ''{"status":"ok","typed":2}'')\<rparr>)\<close> for s
    by (simp add: send_message_def json_dumps_def typed_response_def dumps_str_def
        escape_char_def dec_int_def dec_nat.simps pack_I_def lit_simps)
      (simp add: sample_lib_def)
  have \<open>handle_request sample_lib 1 negative_delay_request (initial_state [])
       = (Inr (), (initial_state [])\<lparr>action_timestamps := [1],
            calls := [KeyboardController, KeyboardType 97, KeyboardType 98],
            stdout := [25, 0, 0, 0] @ map of_nat (lit ''{"status":"ok","typed":2}'')\<rparr>)\<close>
    unfolding dispatch_type [OF a admits_initial] admitted_initial
    unfolding negative_delay_request_def type_action_obj
    by (simp add: lit_simps MAX_TEXT_LENGTH_def) 
      (simp add: then_do_ok [OF t] d initial_state_def lit_simps)
  with a b show ?thesis
    by blast
qed




text \<open>
  C7 (as the code has it). For a \<^verbatim>\<open>type\<close> request that the rate limiter
  admits and whose \<^verbatim>\<open>text\<close> is a
  string of more than 10,000 characters, the Response is the error Response whose message
  is \<^verbatim>\<open>Text too long (N chars, limit 10000)\<close> with \<open>N\<close> the length of \<^verbatim>\<open>text\<close> in
  decimal, and no injector call is made.
\<close>

theorem text_too_long_rejected:
  assumes "type_request message" and "admits now s"
    and "field message ''text'' = Some (JStr t)" and "10000 < length t"
  shows "handle_request L now message s =
           send_message L (error_response
             (lit ''Text too long ('' @ dec_nat (length t) @ lit '' chars, limit 10000)''))
             (admitted now s)
       \<and> calls (snd (handle_request L now message s)) = calls s"
proof -
  obtain kvs where m: "message = JObj kvs"
    using assms(1) by (cases message) (simp_all add: type_request_def)
  have "type_action L message (admitted now s) =
          send_message L (error_response
             (lit ''Text too long ('' @ dec_nat (length t) @ lit '' chars, limit 10000)''))
             (admitted now s)"
    using assms(3,4) unfolding m type_action_obj
    by (simp add: field_def MAX_TEXT_LENGTH_def dec_nat.simps lit_simps)
  then have "handle_request L now message s =
           send_message L (error_response
             (lit ''Text too long ('' @ dec_nat (length t) @ lit '' chars, limit 10000)''))
             (admitted now s)"
    by (simp add: dispatch_type [OF assms(1,2)])
  then show ?thesis
    by (simp add: send_message_calls admitted_def)
qed

text \<open>
  A \<^verbatim>\<open>text\<close> of 10,001 characters.
\<close>

theorem text_too_long_rejected_witness:
  "type_request long_text_request \<and> admits 1 (initial_state [])
   \<and> field long_text_request ''text'' = Some (JStr (replicate 10001 97))
   \<and> 10000 < length (replicate 10001 (97::nat))
   \<and> handle_request sample_lib 1 long_text_request (initial_state [])
       = send_message sample_lib
           (error_response (lit ''Text too long (10001 chars, limit 10000)''))
           ((initial_state [])\<lparr>action_timestamps := [1]\<rparr>)
   \<and> calls (snd (handle_request sample_lib 1 long_text_request (initial_state []))) = []"
proof -
  have a: "type_request long_text_request"
    by (simp add: type_request_def long_text_request_def)
  have b: "field long_text_request ''text'' = Some (JStr (replicate 10001 97))"
    by (simp add: field_def long_text_request_def lit_simps)
  have c: "10000 < length (replicate 10001 (97::nat))"
    by simp
  have d: "dec_nat 10001 = lit ''10001''"
    by (simp add: dec_nat.simps lit_simps)
  have r: "handle_request sample_lib 1 long_text_request (initial_state [])
       = send_message sample_lib
           (error_response (lit ''Text too long (10001 chars, limit 10000)''))
           ((initial_state [])\<lparr>action_timestamps := [1]\<rparr>)
   \<and> calls (snd (handle_request sample_lib 1 long_text_request (initial_state []))) = []"
    using text_too_long_rejected [OF a admits_initial [of 1 "[]"] b c, of sample_lib]
    by (simp add: admitted_initial d lit_simps) (simp add: initial_state_def send_message_calls)
  from a admits_initial [of 1 "[]"] b c r show ?thesis
    by blast
qed

text \<open>
  C7 as stated fails for a request that the rate limiter denies: a \<^verbatim>\<open>type\<close> request
  with a \<^verbatim>\<open>text\<close> of 10,001 characters, arriving as the 21st action of the window, is
  answered with the rate-limit error, whose message cites neither the length nor the limit
  of 10,000 characters.
\<close>

theorem rate_limited_long_text_not_cited:
  "type_request long_text_request
   \<and> field long_text_request ''text'' = Some (JStr (replicate 10001 97))
   \<and> handle_request sample_lib 1.5 long_text_request saturated_state
       = send_message sample_lib rate_limit_response saturated_state
   \<and> rate_limit_response
       \<noteq> error_response (lit ''Text too long (10001 chars, limit 10000)'')"
proof -
  have a: "type_request long_text_request"
    by (simp add: type_request_def long_text_request_def)
  have b: "field long_text_request ''text'' = Some (JStr (replicate 10001 97))"
    by (simp add: field_def long_text_request_def lit_simps)
  have h: "handle_request sample_lib 1.5 long_text_request saturated_state
       = send_message sample_lib rate_limit_response saturated_state"
    using rate_limited_request_rejected [OF saturated_denied(1), of sample_lib long_text_request]
    by (simp only: saturated_denied(2) rate_limit_response_def)
  have n: "rate_limit_response
       \<noteq> error_response (lit ''Text too long (10001 chars, limit 10000)'')"
    by (simp add: rate_limit_response_def error_response_def lit_simps)
  from a b h n show ?thesis
    by blast
qed

text \<open>
  C8 (as the code has it). For a \<^verbatim>\<open>type\<close> request that the rate limiter
  admits and whose \<^verbatim>\<open>text\<close> is the
  empty string, the Response sent is the object whose serialisation is
  \<^verbatim>\<open>{"status":"ok","typed":0}\<close>, and no injector call is made.
\<close>

theorem empty_text_short_circuit:
  assumes \<open>type_request message\<close> and \<open>admits now s\<close>
    and \<open>field message ''text'' = Some (JStr [])\<close>
  shows \<open>handle_request L now message s = send_message L (typed_response 0) (admitted now s)
       \<and> json_dumps L (typed_response 0) = map of_nat (lit ''{"status":"ok","typed":0}'')
       \<and> calls (snd (handle_request L now message s)) = calls s\<close>
proof -
  obtain kvs where m: "message = JObj kvs"
    using assms(1) by (cases message) (simp_all add: type_request_def)
  have "type_action L message (admitted now s) = send_message L (typed_response 0) (admitted now s)"
    using assms(3) unfolding m type_action_obj
    by (simp add: field_def MAX_TEXT_LENGTH_def)
  then have "handle_request L now message s = send_message L (typed_response 0) (admitted now s)"
    by (simp add: dispatch_type [OF assms(1,2)])
  then show ?thesis
    by (simp add: send_message_calls admitted_def typed_response_0_bytes)
qed

text \<open>
  The request \<^verbatim>\<open>{"action":"type","text":""}\<close>: the frame written is the prefix 25 and
  those 25 bytes.
\<close>

theorem empty_text_short_circuit_witness:
  \<open>type_request empty_text_request \<and> admits 1 (initial_state [])
   \<and> field empty_text_request ''text'' = Some (JStr [])
   \<and> handle_request sample_lib 1 empty_text_request (initial_state [])
       = (Inr (), (initial_state [])\<lparr>action_timestamps := [1],
            stdout := [25, 0, 0, 0] @ map of_nat (lit ''{"status":"ok","typed":0}'')\<rparr>)\<close>
proof -
  have a: "type_request empty_text_request"
    by (simp add: type_request_def empty_text_request_def)
  have b: "field empty_text_request ''text'' = Some (JStr [])"
    by (simp add: field_def empty_text_request_def lit_simps)
  have r: \<open>handle_request sample_lib 1 empty_text_request (initial_state [])
       = (Inr (), (initial_state [])\<lparr>action_timestamps := [1],
            stdout := [25, 0, 0, 0] @ map of_nat (lit ''{"status":"ok","typed":0}'')\<rparr>)\<close>
    using empty_text_short_circuit [OF a admits_initial [of 1 "[]"] b, of sample_lib]
    by (simp add: admitted_initial send_message_def pack_I_def lit_simps)
      (simp add: sample_lib_def initial_state_def)
  from a admits_initial [of 1 "[]"] b r show ?thesis
    by blast
qed

text \<open>
  C8 as stated fails for a request that the rate limiter denies: the request
  \<^verbatim>\<open>{"action":"type","text":""}\<close>, arriving as the 21st action of the window, is
  answered with the rate-limit error and not with \<^verbatim>\<open>{"status":"ok","typed":0}\<close>.
\<close>

theorem rate_limited_empty_text_not_ok:
  "type_request empty_text_request
   \<and> field empty_text_request ''text'' = Some (JStr [])
   \<and> handle_request sample_lib 1.5 empty_text_request saturated_state
       = send_message sample_lib rate_limit_response saturated_state
   \<and> rate_limit_response \<noteq> typed_response 0
   \<and> json_dumps sample_lib rate_limit_response \<noteq> json_dumps sample_lib (typed_response 0)"
proof -
  have a: "type_request empty_text_request"
    by (simp add: type_request_def empty_text_request_def)
  have b: "field empty_text_request ''text'' = Some (JStr [])"
    by (simp add: field_def empty_text_request_def lit_simps)
  have h: "handle_request sample_lib 1.5 empty_text_request saturated_state
       = send_message sample_lib rate_limit_response saturated_state"
    using rate_limited_request_rejected [OF saturated_denied(1), of sample_lib empty_text_request]
    by (simp only: saturated_denied(2) rate_limit_response_def)
  have n: "rate_limit_response \<noteq> typed_response 0"
    by (simp add: rate_limit_response_def error_response_def typed_response_def lit_simps)
  have d: "json_dumps sample_lib rate_limit_response \<noteq> json_dumps sample_lib (typed_response 0)"
    by (simp add: json_dumps_def rate_limit_response_def error_response_def typed_response_def
        dumps_str_def escape_char_def dec_int_def dec_nat.simps lit_simps)
  from a b h n d show ?thesis
    by blast
qed

text \<open>
  C10 (as the code has it). For a \<^verbatim>\<open>click\<close> request that the rate limiter admits and
  whose \<^verbatim>\<open>x\<close> and \<^verbatim>\<open>y\<close> are finite numbers (an \<^verbatim>\<open>int\<close>, a \<^verbatim>\<open>bool\<close> or a finite
  \<^verbatim>\<open>float\<close>), the dispatcher truncates each coordinate toward zero, calls the injector
  with the truncated values and, when no injector call raises, answers with the success
  Response that carries the truncated integers.
\<close>

theorem click_truncates:
  assumes "click_request message" and "admits now s"
    and "field message ''x'' = Some vx" and "numeric_value vx = Some x"
    and "field message ''y'' = Some vy" and "numeric_value vy = Some y"
    and "\<forall>history c. raises L history c = None"
  shows "handle_request L now message s =
           send_message L (click_response (trunc_toward_zero x) (trunc_toward_zero y))
             ((admitted now s)\<lparr>calls := calls s
                @ [MouseController, MousePosition (trunc_toward_zero x) (trunc_toward_zero y),
                   Sleep seconds_0_05, MouseClick]\<rparr>)"
proof -
  obtain kvs where m: "message = JObj kvs"
    using assms(1) by (cases message) (simp_all add: click_request_def field_def)
  have nx: "vx \<noteq> JNull" and ny: "vy \<noteq> JNull"
    using assms(4,6) by auto
  have "click_action L message (admitted now s) =
           send_message L (click_response (trunc_toward_zero x) (trunc_toward_zero y))
             ((admitted now s)\<lparr>calls := calls s
                @ [MouseController, MousePosition (trunc_toward_zero x) (trunc_toward_zero y),
                   Sleep seconds_0_05, MouseClick]\<rparr>)"
    using assms(3,5) nx ny unfolding m
    by (simp add: click_action_def field_def then_do_lift_Inr py_int_numeric [OF assms(4)]
        py_int_numeric [OF assms(6)] then_do_ok [OF click_at_ok [OF assms(7)]] admitted_def)
  then show ?thesis
    by (simp add: dispatch_click [OF assms(1,2)])
qed

text \<open>
  The request \<^verbatim>\<open>{"action":"click","x":2.7,"y":-2.7}\<close> clicks at \<open>(2, -2)\<close>.
\<close>

theorem click_truncates_witness:
  "click_request float_click_request \<and> admits 1 (initial_state [])
   \<and> field float_click_request ''x'' = Some (JFloat (Finite 2.7))
   \<and> numeric_value (JFloat (Finite 2.7)) = Some 2.7
   \<and> field float_click_request ''y'' = Some (JFloat (Finite (- 2.7)))
   \<and> numeric_value (JFloat (Finite (- 2.7))) = Some (- 2.7)
   \<and> (\<forall>history c. raises sample_lib history c = None)
   \<and> trunc_toward_zero 2.7 = 2 \<and> trunc_toward_zero (- 2.7) = - 2
   \<and> handle_request sample_lib 1 float_click_request (initial_state [])
       = send_message sample_lib (click_response 2 (- 2))
           ((initial_state [])\<lparr>action_timestamps := [1],
              calls := [MouseController, MousePosition 2 (- 2), Sleep seconds_0_05,
                        MouseClick]\<rparr>)"
proof -
  have a: "click_request float_click_request"
    by (simp add: click_request_def field_def float_click_request_def)
  have x: "field float_click_request ''x'' = Some (JFloat (Finite 2.7))"
    and y: "field float_click_request ''y'' = Some (JFloat (Finite (- 2.7)))"
    by (simp_all add: field_def float_click_request_def lit_simps)
  have nx: "numeric_value (JFloat (Finite 2.7)) = Some 2.7"
    and ny: "numeric_value (JFloat (Finite (- 2.7))) = Some (- 2.7)"
    by simp_all
  have tx: "trunc_toward_zero 2.7 = 2" and ty: "trunc_toward_zero (- 2.7) = - 2"
    by (simp_all add: trunc_toward_zero_def)
  have r: "handle_request sample_lib 1 float_click_request (initial_state [])
       = send_message sample_lib (click_response 2 (- 2))
           ((initial_state [])\<lparr>action_timestamps := [1],
              calls := [MouseController, MousePosition 2 (- 2), Sleep seconds_0_05,
                        MouseClick]\<rparr>)"
    using click_truncates [OF a admits_initial [of 1 "[]"] x nx y ny raises_sample]
    unfolding tx ty admitted_initial by (simp add: initial_state_def)
  from a admits_initial [of 1 "[]"] x nx y ny raises_sample tx ty r show ?thesis
    by blast
qed

text \<open>
  C10 as stated fails for a \<^verbatim>\<open>float\<close> that is not finite, such as the one that
  \<^verbatim>\<open>json.loads\<close> returns for \<^verbatim>\<open>1e999\<close>: \<^verbatim>\<open>int\<close> raises \<^verbatim>\<open>OverflowError\<close>, the
  handler of \<^verbatim>\<open>main\<close> answers with an error Response, and the injector is not called.
\<close>

theorem infinite_coordinate_rejected:
  "click_request infinite_click_request
   \<and> field infinite_click_request ''x'' = Some (JFloat PosInf)
   \<and> handle_request sample_lib 1 infinite_click_request (initial_state [])
       = (Inl (Exn OverflowError (lit ''cannot convert float infinity to integer'')),
          (initial_state [])\<lparr>action_timestamps := [1]\<rparr>)
   \<and> process_message sample_lib 1 infinite_click_request (initial_state [])
       = send_message sample_lib
           (error_response (lit ''cannot convert float infinity to integer''))
           ((initial_state [])\<lparr>action_timestamps := [1]\<rparr>)
   \<and> calls (snd (process_message sample_lib 1 infinite_click_request (initial_state [])))
       = []"
proof -
  have a: "click_request infinite_click_request"
    by (simp add: click_request_def field_def infinite_click_request_def)
  have x: "field infinite_click_request ''x'' = Some (JFloat PosInf)"
    by (simp add: field_def infinite_click_request_def lit_simps)
  have h: "handle_request sample_lib 1 infinite_click_request (initial_state [])
       = (Inl (Exn OverflowError (lit ''cannot convert float infinity to integer'')),
          (initial_state [])\<lparr>action_timestamps := [1]\<rparr>)"
    unfolding dispatch_click [OF a admits_initial] admitted_initial
    unfolding infinite_click_request_def click_action_def
    by (simp add: then_do_lift_Inr then_do_lift_Inl lit_simps)
  have p: "process_message sample_lib 1 infinite_click_request (initial_state [])
       = send_message sample_lib
           (error_response (lit ''cannot convert float infinity to integer''))
           ((initial_state [])\<lparr>action_timestamps := [1]\<rparr>)"
    by (simp add: process_message_def h)
  have "calls (snd (process_message sample_lib 1 infinite_click_request (initial_state [])))
       = []"
    unfolding p by (simp add: send_message_calls initial_state_def)
  with a x h p show ?thesis
    by blast
qed

subsection \<open>Writing a Response and reading it back\<close>

lemma oversized_response_rejected:
  assumes "MAX_MESSAGE_BYTES < length (json_dumps L response)"
    and "length (json_dumps L response) < 2 ^ 32"
  shows "fst (send_message L response s) = Inr ()
       \<and> fst (read_message L (s\<lparr>stdin := sent_bytes L response\<rparr>))
           = Inl (Exn ValueError (lit ''Message exceeds 1048576 byte limit''))"
proof -
  obtain raw where r: "length raw = 4"
      "unpack_I (little_endian L) raw = length (json_dumps L response)"
      "sent_bytes L response = raw @ json_dumps L response"
      "\<forall>s. send_message L response s
         = (Inr (), s\<lparr>stdout := stdout s @ raw @ json_dumps L response\<rparr>)"
    using send_then_read [OF assms(2)] by blast
  from r(1) have ne: "raw \<noteq> []"
    by auto
  have "fst (read_frame L (s\<lparr>stdin := sent_bytes L response\<rparr>))
           = Inl (Exn ValueError (lit ''Message exceeds 1048576 byte limit''))"
    using assms r(1,2) ne unfolding limit_message [symmetric]
    by (simp add: read_frame_def stdin_read_def r(3) Let_def)
  then have "fst (read_message L (s\<lparr>stdin := sent_bytes L response\<rparr>))
           = Inl (Exn ValueError (lit ''Message exceeds 1048576 byte limit''))"
    unfolding read_message_def by (rule then_do_fst_Inl)
  then show ?thesis
    by (simp add: r(4))
qed

lemma escape_letters: "concat (map escape_char (replicate n 97)) = replicate n 97"
  by (induction n) (simp_all add: escape_char_def)

lemma long_response_length:
  "length (json_dumps L (error_response (lit ''Unknown action: '' @ replicate n 97))) = 47 + n"
  by (simp add: json_dumps_def error_response_def dumps_str_def escape_letters escape_char_def
      lit_simps)

text \<open>
  C9 (as the code has it). For every Response whose serialisation has at most 1,048,576
  bytes, \<^verbatim>\<open>send_message\<close> succeeds and writes the 4-byte prefix and the serialisation;
  reading those bytes back yields a payload equal, byte for byte, to the serialisation,
  and leaves nothing unread; and when \<^verbatim>\<open>json.loads\<close> inverts \<^verbatim>\<open>json.dumps\<close> on this
  Response, \<^verbatim>\<open>read_message\<close> returns the Response.
\<close>

theorem response_round_trip:
  assumes "length (json_dumps L response) \<le> MAX_MESSAGE_BYTES"
  shows "send_message L response s = (Inr (), s\<lparr>stdout := stdout s @ sent_bytes L response\<rparr>)
       \<and> read_frame L (s\<lparr>stdin := sent_bytes L response\<rparr>)
           = (Inr (json_dumps L response), s\<lparr>stdin := []\<rparr>)
       \<and> (json_loads L (json_dumps L response) = Inr response \<longrightarrow>
            read_message L (s\<lparr>stdin := sent_bytes L response\<rparr>)
              = (Inr response, s\<lparr>stdin := []\<rparr>))"
proof -
  have "length (json_dumps L response) < 2 ^ 32"
    using assms by (simp add: MAX_MESSAGE_BYTES_def)
  then obtain raw where r: "length raw = 4"
      "unpack_I (little_endian L) raw = length (json_dumps L response)"
      "sent_bytes L response = raw @ json_dumps L response"
      "\<forall>s. send_message L response s
         = (Inr (), s\<lparr>stdout := stdout s @ raw @ json_dumps L response\<rparr>)"
    using send_then_read by blast
  from r(1) have ne: "raw \<noteq> []"
    by auto
  have f: "read_frame L (s\<lparr>stdin := sent_bytes L response\<rparr>)
           = (Inr (json_dumps L response), s\<lparr>stdin := []\<rparr>)"
    using assms r(1,2) ne by (simp add: read_frame_def stdin_read_def r(3) Let_def)
  then have "json_loads L (json_dumps L response) = Inr response \<longrightarrow>
            read_message L (s\<lparr>stdin := sent_bytes L response\<rparr>)
              = (Inr response, s\<lparr>stdin := []\<rparr>)"
    by (simp add: read_message_def then_do_def lift_def)
  with f r(3,4) show ?thesis
    by simp
qed

text \<open>
  The Response \<^verbatim>\<open>{"status":"ok","typed":0}\<close> on a little-endian platform.
\<close>

theorem response_round_trip_witness:
  \<open>length (json_dumps sample_lib (typed_response 0)) \<le> MAX_MESSAGE_BYTES
   \<and> json_loads sample_lib (json_dumps sample_lib (typed_response 0)) = Inr (typed_response 0)
   \<and> sent_bytes sample_lib (typed_response 0)
       = [25, 0, 0, 0] @ map of_nat (lit ''{"status":"ok","typed":0}'')
   \<and> read_message sample_lib (initial_state (sent_bytes sample_lib (typed_response 0)))
       = (Inr (typed_response 0), initial_state [])\<close>
proof -
  have d: \<open>json_dumps sample_lib (typed_response 0) = map of_nat (lit ''{"status":"ok","typed":0}'')\<close>
    by (simp add: json_dumps_def typed_response_def dumps_str_def escape_char_def dec_int_def
      dec_nat.simps lit_simps)
  have l: "length (json_dumps sample_lib (typed_response 0)) \<le> MAX_MESSAGE_BYTES"
    unfolding d by (simp add: MAX_MESSAGE_BYTES_def lit_simps)
  have j: "json_loads sample_lib (json_dumps sample_lib (typed_response 0)) = Inr (typed_response 0)"
    by (simp add: sample_lib_def sample_loads_def sample_values_def json_dumps_def)
  have b: \<open>sent_bytes sample_lib (typed_response 0)
       = [25, 0, 0, 0] @ map of_nat (lit ''{"status":"ok","typed":0}'')\<close>
    unfolding sent_bytes_def send_message_def d
    by (simp add: pack_I_def lit_simps sample_lib_def initial_state_def)
  from response_round_trip [OF l, of "initial_state []"] j b l show ?thesis
    by (simp add: initial_state_def)
qed

text \<open>
  C9 as stated fails for a Response whose serialisation exceeds the limit of the reader,
  such as the answer to a request whose unknown \<^verbatim>\<open>action\<close> has 1,048,563 letters:
  \<^verbatim>\<open>send_message\<close> writes it, and \<^verbatim>\<open>read_message\<close> raises \<^verbatim>\<open>ValueError\<close> on it.
\<close>

theorem large_response_not_read_back:
  "fst (send_message sample_lib long_response (initial_state [])) = Inr ()
   \<and> fst (read_message sample_lib (initial_state (sent_bytes sample_lib long_response)))
       = Inl (Exn ValueError (lit ''Message exceeds 1048576 byte limit''))"
proof -
  have "MAX_MESSAGE_BYTES < length (json_dumps sample_lib long_response)"
    and "length (json_dumps sample_lib long_response) < 2 ^ 32"
    unfolding long_response_def long_response_length by (simp_all add: MAX_MESSAGE_BYTES_def)
  from oversized_response_rejected [OF this, of "initial_state []"]
  show ?thesis by (simp add: initial_state_def)
qed

end
